theory Spec2Isabelle
  imports Complex_Main
begin

section \<open>The document layer source panel (document_layer_source.tsx)\<close>

text \<open>
  The component \<open>DocumentLayerSource\<close> is a function of its props (the layer configuration
  and two callbacks) and of its hook state. Each handler and each effect body is embedded as
  a function of the values it closes over; a call of the callback \<open>setSelectedLayerConfig\<close>
  is the \<open>Some\<close> result of a handler, the argument of \<open>setIsUpdateDisabled\<close> is the
  result of the effect that calls it.
\<close>

subsection \<open>JavaScript numbers and \<open>parseInt\<close>\<close>

text \<open>
  A JavaScript number is \<open>NaN\<close> or a numeric value. The relational operators \<open><\<close> and
  \<open>>\<close> are false as soon as an operand is \<open>NaN\<close>. A value carries its mathematical
  value. For an integer of magnitude at most \<open>2^53\<close> that is the value the language
  computes; a longer digit run is rounded by the language to the nearest double, or to an
  infinity, which the model does not follow. The rounding is monotone and leaves 1 and 10000
  fixed, so no comparison made by this component depends on it, and an infinity compares with
  1 and 10000 as every value beyond them does.
\<close>

datatype jsnumber = NaN | Num real

fun js_lt :: "jsnumber \<Rightarrow> jsnumber \<Rightarrow> bool" where
  "js_lt (Num x) (Num y) = (x < y)"
| "js_lt _ _ = False"

definition js_gt :: "jsnumber \<Rightarrow> jsnumber \<Rightarrow> bool" where
  "js_gt x y = js_lt y x"

text \<open>
  \<open>parseInt(value, 10)\<close>: leading white space is skipped, one sign is read, then the
  longest run of decimal digits; with no digit the result is \<open>NaN\<close>. With the radix given
  as 10 no \<open>0x\<close> prefix is recognised. Strings are sequences of code units below 256, so
  the white space of the language that lies in this range is tab, line feed, vertical tab,
  form feed, carriage return, space and the no-break space.
\<close>

definition isWhiteSpace :: "char \<Rightarrow> bool" where
  "isWhiteSpace c = (c \<in> set [CHR 0x09, CHR 0x0A, CHR 0x0B, CHR 0x0C, CHR 0x0D, CHR 0x20, CHR 0xA0])"

definition isDigit :: "char \<Rightarrow> bool" where
  "isDigit c = (c \<in> set ''0123456789'')"

definition digitValue :: "char \<Rightarrow> int" where
  "digitValue c = of_char c - 48"

definition decimalValue :: "string \<Rightarrow> int" where
  "decimalValue ds = foldl (\<lambda>acc c. 10 * acc + digitValue c) 0 ds"

definition parseInt :: "string \<Rightarrow> jsnumber" where
  "parseInt inputString =
     (let S = dropWhile isWhiteSpace inputString;
          sign = (if S \<noteq> [] \<and> hd S = CHR ''-'' then - 1 else (1::real));
          S' = (if S \<noteq> [] \<and> (hd S = CHR ''+'' \<or> hd S = CHR ''-'') then tl S else S);
          Z = takeWhile isDigit S'
      in if Z = [] then NaN else Num (sign * real_of_int (decimalValue Z)))"

subsection \<open>Data model\<close>

text \<open>
  \<open>IndexPatternField\<close> and \<open>IndexPattern\<close> are types of the host platform; the component
  reads the properties \<open>name\<close>, \<open>displayName\<close> and \<open>type\<close> of a field and \<open>id\<close>,
  \<open>title\<close> and \<open>fields\<close> of an index pattern. The \<open>id\<close> of an index pattern is optional
  (the code writes \<open>indexPattern.id ?? ''\<close>).
\<close>

record IndexPatternField =
  name :: string
  displayName :: string
  type :: string

record IndexPattern =
  id_pattern :: "string option"
  title :: string
  fields_pattern :: "IndexPatternField list"

text \<open>
  Modelled from the spec: the type \<open>DocumentLayerSpecification\<close> is declared in
  \<open>model/mapLayerType\<close>, outside the component's file. The spec's data model gives
  LayerConfiguration as
  \<open>{ id, source: { indexPatternId, indexPatternRefName, geoFieldName, geoFieldType,
  documentRequestNumber, filters, tooltipFields, showTooltips, useGeoBoundingBoxFilter } }\<close>.
  The type of a filter is the platform's and is a parameter \<open>'f\<close>; whatever else the
  configuration object carries beside \<open>id\<close> and \<open>source\<close> is the field \<open>rest\<close> of type
  \<open>'m\<close>, which the object spread \<open>...selectedLayerConfig\<close> copies along.
\<close>

record 'f source =
  indexPatternId :: string
  indexPatternRefName :: string
  geoFieldName :: string
  geoFieldType :: string
  documentRequestNumber :: jsnumber
  filters :: "'f list"
  tooltipFields :: "string list"
  showTooltips :: bool
  useGeoBoundingBoxFilter :: bool

record ('f, 'm) config =
  id_config :: string
  source :: "'f source"
  rest :: 'm

text \<open>
  \<open>MemorizedForm\<close>: per index-pattern id an entry with two optional properties. The map
  holds the own properties of the object in \<open>memorizedForm.current\<close>. That object is
  created by the literal \<open>{}\<close> and so inherits the members of \<open>Object.prototype\<close>:
  read at one of their names, it yields the inherited member unless it owns a property of
  that name. An inherited member is truthy and has neither \<open>filters\<close> nor
  \<open>geoField\<close>, nor enumerable properties of its own to spread. An assignment under the
  name \<open>__proto__\<close> would replace the prototype instead of creating a property;
  index-pattern ids are taken to differ from that one name.
\<close>

definition inheritedPropertyNames :: "string list" where
  "inheritedPropertyNames =
     [''constructor'', ''__defineGetter__'', ''__defineSetter__'', ''hasOwnProperty'',
      ''__lookupGetter__'', ''__lookupSetter__'', ''isPrototypeOf'', ''propertyIsEnumerable'',
      ''toString'', ''valueOf'', ''__proto__'', ''toLocaleString'']"

record 'f MemorizedEntry =
  filters_memo :: "'f list option"
  geoField :: "IndexPatternField option"

type_synonym 'f MemorizedForm = "string \<rightharpoonup> 'f MemorizedEntry"

text \<open>The hook state: three \<open>useState\<close> cells and the \<open>useRef\<close> cell.\<close>

record 'f state =
  indexPattern :: "IndexPattern option"
  hasInvalidRequestNumber :: bool
  showTooltips_state :: bool
  memorizedForm :: "'f MemorizedForm"

subsection \<open>Derived view state\<close>

definition acceptedFieldTypes :: "string list" where
  "acceptedFieldTypes = [''geo_point'', ''geo_shape'']"

text \<open>\<open>indexPattern?.fields.filter(...)\<close>: undefined without an index pattern.\<close>

definition geoFields :: "IndexPattern option \<Rightarrow> IndexPatternField list option" where
  "geoFields ip = map_option (\<lambda>p. filter (\<lambda>field. type field \<in> set acceptedFieldTypes) (fields_pattern p)) ip"

text \<open>\<open>geoFields?.find(...)\<close>: the first field whose name is the configured one.\<close>

definition selectedField :: "IndexPattern option \<Rightarrow> ('f, 'm) config \<Rightarrow> IndexPatternField option" where
  "selectedField ip selectedLayerConfig =
     (case geoFields ip of
        None \<Rightarrow> None
      | Some gs \<Rightarrow> find (\<lambda>field. name field = geoFieldName (source selectedLayerConfig)) gs)"

subsection \<open>Validity effects\<close>

text \<open>The effect of lines 245-250: the argument of \<open>setHasInvalidRequestNumber\<close>.\<close>

definition invalidRequestNumber :: "('f, 'm) config \<Rightarrow> bool" where
  "invalidRequestNumber selectedLayerConfig =
     (js_lt (documentRequestNumber (source selectedLayerConfig)) (Num 1) \<or>
      js_gt (documentRequestNumber (source selectedLayerConfig)) (Num 10000))"

definition requestNumberEffect :: "'f state \<Rightarrow> ('f, 'm) config \<Rightarrow> 'f state" where
  "requestNumberEffect st selectedLayerConfig =
     st\<lparr>hasInvalidRequestNumber := invalidRequestNumber selectedLayerConfig\<rparr>"

text \<open>The effect of lines 119-122: the argument of \<open>setIsUpdateDisabled\<close>.\<close>

definition updateDisabledEffect :: "'f state \<Rightarrow> ('f, 'm) config \<Rightarrow> bool" where
  "updateDisabledEffect st selectedLayerConfig =
     (indexPattern st = None \<or> selectedField (indexPattern st) selectedLayerConfig = None
      \<or> hasInvalidRequestNumber st)"

subsection \<open>The memorized selection\<close>

text \<open>
  \<open>indexPattern?.id\<close> used as a condition: the id when there is an index pattern whose id
  is a non-empty string.
\<close>

definition truthyId :: "IndexPattern option \<Rightarrow> string option" where
  "truthyId ip =
     (case ip of
        None \<Rightarrow> None
      | Some p \<Rightarrow> (case id_pattern p of None \<Rightarrow> None | Some i \<Rightarrow> if i \<noteq> [] then Some i else None))"

text \<open>\<open>{ ...memorizedForm.current[id] }\<close>: the entry's properties, none when it is undefined.\<close>

definition spreadEntry :: "'f MemorizedForm \<Rightarrow> string \<Rightarrow> 'f MemorizedEntry" where
  "spreadEntry m i = (case m i of None \<Rightarrow> \<lparr>filters_memo = None, geoField = None\<rparr> | Some e \<Rightarrow> e)"

text \<open>
  The effect of lines 75-88. The test \<open>!memorizedForm.current[indexPattern.id]\<close>
  succeeds when the object neither owns nor inherits a property of that name.
\<close>

definition memorizationEffect :: "'f state \<Rightarrow> ('f, 'm) config \<Rightarrow> 'f state" where
  "memorizationEffect st selectedLayerConfig =
     (case truthyId (indexPattern st) of
        None \<Rightarrow> st
      | Some i \<Rightarrow>
          if i = indexPatternId (source selectedLayerConfig) then
            (if memorizedForm st i = None \<and> i \<notin> set inheritedPropertyNames then
               st\<lparr>memorizedForm := (memorizedForm st)(i \<mapsto>
                  \<lparr>filters_memo = Some (filters (source selectedLayerConfig)),
                   geoField = selectedField (indexPattern st) selectedLayerConfig\<rparr>)\<rparr>
             else st)
          else st)"

subsection \<open>Change handlers\<close>

text \<open>
  A handler returns the argument it passes to \<open>setSelectedLayerConfig\<close> (\<open>None\<close> when it
  does not call it) and the hook state after it.
\<close>

definition onGeoFieldChange ::
  "'f state \<Rightarrow> ('f, 'm) config \<Rightarrow> IndexPatternField option \<Rightarrow> ('f, 'm) config option \<times> 'f state" where
  "onGeoFieldChange st selectedLayerConfig field =
     (case field of
        None \<Rightarrow> (None, st)
      | Some f \<Rightarrow>
          (Some (selectedLayerConfig\<lparr>source := (source selectedLayerConfig)
                   \<lparr>geoFieldName := displayName f, geoFieldType := type f\<rparr>\<rparr>),
           (case truthyId (indexPattern st) of
              None \<Rightarrow> st
            | Some i \<Rightarrow> st\<lparr>memorizedForm := (memorizedForm st)(i \<mapsto>
                         (spreadEntry (memorizedForm st) i)\<lparr>geoField := Some f\<rparr>)\<rparr>)))"

definition onDocumentRequestNumberChange ::
  "'f state \<Rightarrow> ('f, 'm) config \<Rightarrow> string \<Rightarrow> ('f, 'm) config option \<times> 'f state" where
  "onDocumentRequestNumberChange st selectedLayerConfig value =
     (let selectedNumber = parseInt value;
          source' = (source selectedLayerConfig)\<lparr>documentRequestNumber := selectedNumber\<rparr>
      in (Some (selectedLayerConfig\<lparr>source := source'\<rparr>), st))"

record ComboBoxOption =
  label :: string

text \<open>The loop \<open>for (const option of options) tooltipSelection.push(option.label)\<close>.\<close>

fun pushLabels :: "string list \<Rightarrow> ComboBoxOption list \<Rightarrow> string list" where
  "pushLabels tooltipSelection [] = tooltipSelection"
| "pushLabels tooltipSelection (option # options) = pushLabels (tooltipSelection @ [label option]) options"

definition onTooltipSelectionChange ::
  "'f state \<Rightarrow> ('f, 'm) config \<Rightarrow> ComboBoxOption list \<Rightarrow> ('f, 'm) config option \<times> 'f state" where
  "onTooltipSelectionChange st selectedLayerConfig options =
     (let tooltipSelection = pushLabels [] options;
          source' = (source selectedLayerConfig)\<lparr>tooltipFields := tooltipSelection\<rparr>
      in (Some (selectedLayerConfig\<lparr>source := source'\<rparr>), st))"

definition onFiltersUpdated ::
  "'f state \<Rightarrow> ('f, 'm) config \<Rightarrow> 'f list \<Rightarrow> ('f, 'm) config option \<times> 'f state" where
  "onFiltersUpdated st selectedLayerConfig fs =
     (Some (selectedLayerConfig\<lparr>source := (source selectedLayerConfig)\<lparr>filters := fs\<rparr>\<rparr>),
      (case truthyId (indexPattern st) of
         None \<Rightarrow> st
       | Some i \<Rightarrow> st\<lparr>memorizedForm := (memorizedForm st)(i \<mapsto>
                    (spreadEntry (memorizedForm st) i)\<lparr>filters_memo := Some fs\<rparr>)\<rparr>))"

definition onShowTooltipsChange ::
  "'f state \<Rightarrow> ('f, 'm) config \<Rightarrow> bool \<Rightarrow> ('f, 'm) config option \<times> 'f state" where
  "onShowTooltipsChange st selectedLayerConfig checked =
     (let source' = (source selectedLayerConfig)\<lparr>showTooltips := checked\<rparr>
      in (Some (selectedLayerConfig\<lparr>source := source'\<rparr>), st\<lparr>showTooltips_state := checked\<rparr>))"

definition onToggleGeoBoundingBox ::
  "'f state \<Rightarrow> ('f, 'm) config \<Rightarrow> bool \<Rightarrow> ('f, 'm) config option \<times> 'f state" where
  "onToggleGeoBoundingBox st selectedLayerConfig checked =
     (let source' = (source selectedLayerConfig)\<lparr>useGeoBoundingBoxFilter := checked\<rparr>
      in (Some (selectedLayerConfig\<lparr>source := source'\<rparr>), st))"

text \<open>
  The calls of the change handlers, each with the payload its handler reads, and their
  dispatch. The field of a geo field change is computed by the combo box's inline
  \<open>onChange\<close>, embedded below as \<open>geoFieldSelect_onChange\<close>.
\<close>

datatype 'f event =
    GeoFieldChange "IndexPatternField option"
  | DocumentRequestNumberChange string
  | TooltipSelectionChange "ComboBoxOption list"
  | FiltersUpdated "'f list"
  | ShowTooltipsChange bool
  | ToggleGeoBoundingBox bool

fun handle :: "'f state \<Rightarrow> ('f, 'm) config \<Rightarrow> 'f event \<Rightarrow> ('f, 'm) config option \<times> 'f state" where
  "handle st c (GeoFieldChange field) = onGeoFieldChange st c field"
| "handle st c (DocumentRequestNumberChange value) = onDocumentRequestNumberChange st c value"
| "handle st c (TooltipSelectionChange options) = onTooltipSelectionChange st c options"
| "handle st c (FiltersUpdated fs) = onFiltersUpdated st c fs"
| "handle st c (ShowTooltipsChange checked) = onShowTooltipsChange st c checked"
| "handle st c (ToggleGeoBoundingBox checked) = onToggleGeoBoundingBox st c checked"

subsection \<open>The effect of an index pattern change (lines 220-243)\<close>

definition indexPatternChangeEffect :: "'f state \<Rightarrow> ('f, 'm) config \<Rightarrow> ('f, 'm) config option" where
  "indexPatternChangeEffect st selectedLayerConfig =
     (case indexPattern st of
        None \<Rightarrow> None
      | Some ip \<Rightarrow>
          if id_pattern ip \<noteq> Some (indexPatternId (source selectedLayerConfig)) then
            (let source0 = source selectedLayerConfig;
                 source1 = source0\<lparr>indexPatternId := (case id_pattern ip of None \<Rightarrow> [] | Some i \<Rightarrow> i)\<rparr>;
                 source2 = source1\<lparr>indexPatternRefName := title ip\<rparr>;
                 fs = (case truthyId (Some ip) of
                         None \<Rightarrow> []
                       | Some i \<Rightarrow> (case memorizedForm st i of
                                      None \<Rightarrow> []
                                    | Some e \<Rightarrow> (case filters_memo e of None \<Rightarrow> [] | Some m \<Rightarrow> m)));
                 source3 = source2\<lparr>filters := fs\<rparr>;
                 g = (case truthyId (Some ip) of
                        None \<Rightarrow> None
                      | Some i \<Rightarrow> (case memorizedForm st i of None \<Rightarrow> None | Some e \<Rightarrow> geoField e));
                 source4 = (case g of
                              None \<Rightarrow> source3
                            | Some gf \<Rightarrow> source3\<lparr>geoFieldName := displayName gf, geoFieldType := type gf\<rparr>)
             in Some (selectedLayerConfig\<lparr>source := source4\<rparr>))
          else None)"

subsection \<open>Tooltip field options (lines 139-161)\<close>

text \<open>\<open>field.displayName || field.name\<close>: the display name unless it is the empty string.\<close>

definition fieldLabel :: "IndexPatternField \<Rightarrow> string" where
  "fieldLabel field = (if displayName field \<noteq> [] then displayName field else name field)"

text \<open>
  \<open>_.groupBy(collection, iteratee)\<close> walks the collection in order; a value whose key the
  result already owns is pushed on that key's array, another key becomes a new property with
  a one-element array. The result is kept as the list of its properties in creation order.
\<close>

fun groupBy_assign :: "(string \<times> 'a list) list \<Rightarrow> string \<Rightarrow> 'a \<Rightarrow> (string \<times> 'a list) list" where
  "groupBy_assign [] key v = [(key, [v])]"
| "groupBy_assign ((k, vs) # result) key v =
     (if k = key then (k, vs @ [v]) # result else (k, vs) # groupBy_assign result key v)"

definition groupBy :: "'a list \<Rightarrow> ('a \<Rightarrow> string) \<Rightarrow> (string \<times> 'a list) list" where
  "groupBy collection iteratee =
     foldl (\<lambda>result v. groupBy_assign result (iteratee v) v) [] collection"

text \<open>
  \<open>Object.entries\<close> lists the own properties: first the keys that are array indices
  (canonical decimal numerals below \<open>2^32 - 1\<close>) in ascending numeric order, then the other
  keys in creation order.
\<close>

definition isArrayIndex :: "string \<Rightarrow> bool" where
  "isArrayIndex k =
     (k \<noteq> [] \<and> list_all isDigit k \<and> (k = ''0'' \<or> hd k \<noteq> CHR ''0'') \<and> decimalValue k < 2 ^ 32 - 1)"

definition Object_entries :: "(string \<times> 'v) list \<Rightarrow> (string \<times> 'v) list" where
  "Object_entries obj =
     sort_key (\<lambda>e. decimalValue (fst e)) (filter (\<lambda>e. isArrayIndex (fst e)) obj)
     @ filter (\<lambda>e. \<not> isArrayIndex (fst e)) obj"

record OptionGroup =
  label_group :: string
  options_group :: "ComboBoxOption list"

text \<open>The inner loop \<open>for (const field of fieldEntries) fieldsOfSameType.push(...)\<close>.\<close>

fun pushFieldLabels :: "ComboBoxOption list \<Rightarrow> IndexPatternField list \<Rightarrow> ComboBoxOption list" where
  "pushFieldLabels fieldsOfSameType [] = fieldsOfSameType"
| "pushFieldLabels fieldsOfSameType (field # fieldEntries) =
     pushFieldLabels (fieldsOfSameType @ [\<lparr>label = fieldLabel field\<rparr>]) fieldEntries"

text \<open>
  One turn of the \<open>forEach\<close> callback on the two variables \<open>fieldOptions\<close> and
  \<open>fieldsOfSameType\<close> that it updates.
\<close>

fun forEachEntry ::
  "OptionGroup list \<times> ComboBoxOption list \<Rightarrow> string \<times> IndexPatternField list
   \<Rightarrow> OptionGroup list \<times> ComboBoxOption list" where
  "forEachEntry (fieldOptions, fieldsOfSameType) (fieldType, fieldEntries) =
     (let pushed = pushFieldLabels fieldsOfSameType fieldEntries
      in (fieldOptions @ [\<lparr>label_group = fieldType, options_group = pushed\<rparr>], []))"

definition tooltipFieldsOptions :: "IndexPattern option \<Rightarrow> OptionGroup list" where
  "tooltipFieldsOptions ip =
     (case ip of
        None \<Rightarrow> []
      | Some p \<Rightarrow>
          (let fieldTypeMap = groupBy (fields_pattern p) type
           in fst (foldl forEachEntry ([], []) (Object_entries fieldTypeMap))))"

subsection \<open>The bounding box checkbox (lines 375-382)\<close>

record CheckboxProps =
  id_checkbox :: string
  disabled :: bool
  label_checkbox :: string
  checked :: bool

definition boundingBoxCheckbox :: "('f, 'm) config \<Rightarrow> CheckboxProps" where
  "boundingBoxCheckbox selectedLayerConfig =
     \<lparr>id_checkbox = id_config selectedLayerConfig @ ''-bounding-box-filter'',
      disabled = (geoFieldType (source selectedLayerConfig) \<noteq> ''geo_point''),
      label_checkbox = ''Only request data around map extent'',
      checked = (if useGeoBoundingBoxFilter (source selectedLayerConfig) then True else False)\<rparr>"

text \<open>
  A click on the rendered checkbox: a disabled control delivers no change event, an enabled
  one calls its \<open>onChange\<close>, which is \<open>onToggleGeoBoundingBox\<close>, with the flipped state.
\<close>

definition clickBoundingBoxCheckbox ::
  "'f state \<Rightarrow> ('f, 'm) config \<Rightarrow> (('f, 'm) config option \<times> 'f state) option" where
  "clickBoundingBoxCheckbox st selectedLayerConfig =
     (let props = boundingBoxCheckbox selectedLayerConfig
      in if disabled props then None
         else Some (onToggleGeoBoundingBox st selectedLayerConfig (\<not> checked props)))"

subsection \<open>The geospatial field combo box (lines 124-137 and 317-324)\<close>

definition formatFieldsToComboBox :: "IndexPatternField list option \<Rightarrow> ComboBoxOption list" where
  "formatFieldsToComboBox fs =
     (case fs of None \<Rightarrow> [] | Some fields' \<Rightarrow> map (\<lambda>field. \<lparr>label = fieldLabel field\<rparr>) fields')"

definition formatFieldToComboBox :: "IndexPatternField option \<Rightarrow> ComboBoxOption list" where
  "formatFieldToComboBox field =
     (case field of None \<Rightarrow> [] | Some f \<Rightarrow> formatFieldsToComboBox (Some [f]))"

text \<open>
  \<open>getFieldByName\<close> is the platform's lookup of a field of an index pattern by its name
  (the platform keys the fields of an index pattern by name, so names are distinct there).
\<close>

definition getFieldByName :: "IndexPattern \<Rightarrow> string \<Rightarrow> IndexPatternField option" where
  "getFieldByName p n = find (\<lambda>field. name field = n) (fields_pattern p)"

datatype error = TypeError

text \<open>
  The inline \<open>onChange\<close> of the combo box: it is the only caller of \<open>onGeoFieldChange\<close>.
  The optional chain \<open>indexPattern?.getFieldByName(option[0].label)\<close> evaluates its argument
  only when there is an index pattern; \<open>option[0].label\<close> on an empty selection throws a
  \<open>TypeError\<close>. A missing field is passed on as \<open>null\<close>.
\<close>

definition geoFieldSelect_onChange ::
  "'f state \<Rightarrow> ('f, 'm) config \<Rightarrow> ComboBoxOption list
   \<Rightarrow> error + (('f, 'm) config option \<times> 'f state)" where
  "geoFieldSelect_onChange st selectedLayerConfig option =
     (case indexPattern st of
        None \<Rightarrow> Inr (onGeoFieldChange st selectedLayerConfig None)
      | Some p \<Rightarrow>
          (case option of
             [] \<Rightarrow> Inl TypeError
           | opt # _ \<Rightarrow> Inr (onGeoFieldChange st selectedLayerConfig (getFieldByName p (label opt)))))"

subsection \<open>Objects and references\<close>

text \<open>
  For the question which objects a handler creates and which it writes to, the handlers are
  embedded a second time over a store of objects: a list, an address being a position in it.
  A configuration object holds its \<open>id\<close>, the address of its \<open>source\<close> object and its
  other properties. An object literal allocates (the store grows by one object at a new
  address); an assignment to a property of an object replaces the object at its address.
\<close>

type_synonym addr = nat

datatype ('f, 'm) object = SourceObject "'f source" | ConfigObject string addr 'm

type_synonym ('f, 'm) store = "('f, 'm) object list"

definition alloc :: "('f, 'm) store \<Rightarrow> ('f, 'm) object \<Rightarrow> ('f, 'm) store \<times> addr" where
  "alloc h obj = (h @ [obj], length h)"

definition assignSource :: "('f, 'm) store \<Rightarrow> addr \<Rightarrow> ('f source \<Rightarrow> 'f source) \<Rightarrow> ('f, 'm) store" where
  "assignSource h s upd =
     (if s < length h then
        (case h ! s of SourceObject src \<Rightarrow> h[s := SourceObject (upd src)] | ConfigObject _ _ _ \<Rightarrow> h)
      else h)"

text \<open>The configuration read through an address: the object there and its source object.\<close>

definition deref :: "('f, 'm) store \<Rightarrow> addr \<Rightarrow> ('f, 'm) config option" where
  "deref h a =
     (if a < length h then
        (case h ! a of
           ConfigObject i s r \<Rightarrow>
             (if s < length h then
                (case h ! s of
                   SourceObject src \<Rightarrow> Some \<lparr>id_config = i, source = src, rest = r\<rparr>
                 | ConfigObject _ _ _ \<Rightarrow> None)
              else None)
         | SourceObject _ \<Rightarrow> None)
      else None)"

text \<open>
  The handlers over the store. Each takes the address of \<open>selectedLayerConfig\<close>, evaluates
  the literal \<open>{ ...selectedLayerConfig.source, ... }\<close> and then the literal
  \<open>{ ...selectedLayerConfig, source }\<close>, and returns the store, the address it passes to
  \<open>setSelectedLayerConfig\<close> (\<open>None\<close> when it makes no call) and the hook state. The result
  is \<open>None\<close> when the address does not hold a configuration.
\<close>

definition onGeoFieldChange_store ::
  "('f, 'm) store \<Rightarrow> addr \<Rightarrow> 'f state \<Rightarrow> IndexPatternField option
   \<Rightarrow> (('f, 'm) store \<times> addr option \<times> 'f state) option" where
  "onGeoFieldChange_store h selectedLayerConfig st field =
     (case deref h selectedLayerConfig of
        None \<Rightarrow> None
      | Some c \<Rightarrow>
          (case field of
             None \<Rightarrow> Some (h, None, st)
           | Some f \<Rightarrow>
               (let (h1, source') = alloc h (SourceObject ((source c)\<lparr>geoFieldName := displayName f, geoFieldType := type f\<rparr>));
                    (h2, arg) = alloc h1 (ConfigObject (id_config c) source' (rest c))
                in Some (h2, Some arg,
                     (case truthyId (indexPattern st) of
                        None \<Rightarrow> st
                      | Some i \<Rightarrow> st\<lparr>memorizedForm := (memorizedForm st)(i \<mapsto>
                                   (spreadEntry (memorizedForm st) i)\<lparr>geoField := Some f\<rparr>)\<rparr>)))))"

definition onDocumentRequestNumberChange_store ::
  "('f, 'm) store \<Rightarrow> addr \<Rightarrow> 'f state \<Rightarrow> string
   \<Rightarrow> (('f, 'm) store \<times> addr option \<times> 'f state) option" where
  "onDocumentRequestNumberChange_store h selectedLayerConfig st value =
     (case deref h selectedLayerConfig of
        None \<Rightarrow> None
      | Some c \<Rightarrow>
          (let selectedNumber = parseInt value;
               (h1, source') = alloc h (SourceObject ((source c)\<lparr>documentRequestNumber := selectedNumber\<rparr>));
               (h2, arg) = alloc h1 (ConfigObject (id_config c) source' (rest c))
           in Some (h2, Some arg, st)))"

definition onTooltipSelectionChange_store ::
  "('f, 'm) store \<Rightarrow> addr \<Rightarrow> 'f state \<Rightarrow> ComboBoxOption list
   \<Rightarrow> (('f, 'm) store \<times> addr option \<times> 'f state) option" where
  "onTooltipSelectionChange_store h selectedLayerConfig st opts =
     (case deref h selectedLayerConfig of
        None \<Rightarrow> None
      | Some c \<Rightarrow>
          (let tooltipSelection = pushLabels [] opts;
               (h1, source') = alloc h (SourceObject ((source c)\<lparr>tooltipFields := tooltipSelection\<rparr>));
               (h2, arg) = alloc h1 (ConfigObject (id_config c) source' (rest c))
           in Some (h2, Some arg, st)))"

definition onFiltersUpdated_store ::
  "('f, 'm) store \<Rightarrow> addr \<Rightarrow> 'f state \<Rightarrow> 'f list
   \<Rightarrow> (('f, 'm) store \<times> addr option \<times> 'f state) option" where
  "onFiltersUpdated_store h selectedLayerConfig st fs =
     (case deref h selectedLayerConfig of
        None \<Rightarrow> None
      | Some c \<Rightarrow>
          (let (h1, source') = alloc h (SourceObject ((source c)\<lparr>filters := fs\<rparr>));
               (h2, arg) = alloc h1 (ConfigObject (id_config c) source' (rest c))
           in Some (h2, Some arg,
                (case truthyId (indexPattern st) of
                   None \<Rightarrow> st
                 | Some i \<Rightarrow> st\<lparr>memorizedForm := (memorizedForm st)(i \<mapsto>
                              (spreadEntry (memorizedForm st) i)\<lparr>filters_memo := Some fs\<rparr>)\<rparr>))))"

definition onShowTooltipsChange_store ::
  "('f, 'm) store \<Rightarrow> addr \<Rightarrow> 'f state \<Rightarrow> bool
   \<Rightarrow> (('f, 'm) store \<times> addr option \<times> 'f state) option" where
  "onShowTooltipsChange_store h selectedLayerConfig st b =
     (case deref h selectedLayerConfig of
        None \<Rightarrow> None
      | Some c \<Rightarrow>
          (let (h1, source') = alloc h (SourceObject ((source c)\<lparr>showTooltips := b\<rparr>));
               (h2, arg) = alloc h1 (ConfigObject (id_config c) source' (rest c))
           in Some (h2, Some arg, st\<lparr>showTooltips_state := b\<rparr>)))"

definition onToggleGeoBoundingBox_store ::
  "('f, 'm) store \<Rightarrow> addr \<Rightarrow> 'f state \<Rightarrow> bool
   \<Rightarrow> (('f, 'm) store \<times> addr option \<times> 'f state) option" where
  "onToggleGeoBoundingBox_store h selectedLayerConfig st b =
     (case deref h selectedLayerConfig of
        None \<Rightarrow> None
      | Some c \<Rightarrow>
          (let (h1, source') = alloc h (SourceObject ((source c)\<lparr>useGeoBoundingBoxFilter := b\<rparr>));
               (h2, arg) = alloc h1 (ConfigObject (id_config c) source' (rest c))
           in Some (h2, Some arg, st)))"

fun handle_store ::
  "('f, 'm) store \<Rightarrow> addr \<Rightarrow> 'f state \<Rightarrow> 'f event \<Rightarrow> (('f, 'm) store \<times> addr option \<times> 'f state) option" where
  "handle_store h a st (GeoFieldChange field) = onGeoFieldChange_store h a st field"
| "handle_store h a st (DocumentRequestNumberChange value) = onDocumentRequestNumberChange_store h a st value"
| "handle_store h a st (TooltipSelectionChange opts) = onTooltipSelectionChange_store h a st opts"
| "handle_store h a st (FiltersUpdated fs) = onFiltersUpdated_store h a st fs"
| "handle_store h a st (ShowTooltipsChange b) = onShowTooltipsChange_store h a st b"
| "handle_store h a st (ToggleGeoBoundingBox b) = onToggleGeoBoundingBox_store h a st b"

text \<open>
  The effect of an index pattern change over the store (lines 220-243). Here the code does
  assign: \<open>const source = { ...selectedLayerConfig.source }\<close> allocates a copy, evaluated
  whether or not the condition holds, and the assignments \<open>source.indexPatternId = ...\<close>
  and those that follow write to that copy.
\<close>

definition indexPatternChangeEffect_store ::
  "('f, 'm) store \<Rightarrow> addr \<Rightarrow> 'f state \<Rightarrow> (('f, 'm) store \<times> addr option) option" where
  "indexPatternChangeEffect_store h selectedLayerConfig st =
     (case deref h selectedLayerConfig of
        None \<Rightarrow> None
      | Some c \<Rightarrow>
          (let (h1, source') = alloc h (SourceObject (source c))
           in (case indexPattern st of
                 None \<Rightarrow> Some (h1, None)
               | Some ip \<Rightarrow>
                   if id_pattern ip \<noteq> Some (indexPatternId (source c)) then
                     (let h2 = assignSource h1 source'
                                 (\<lambda>src. src\<lparr>indexPatternId := (case id_pattern ip of None \<Rightarrow> [] | Some i \<Rightarrow> i)\<rparr>);
                          h3 = assignSource h2 source' (\<lambda>src. src\<lparr>indexPatternRefName := title ip\<rparr>);
                          fs = (case truthyId (Some ip) of
                                  None \<Rightarrow> []
                                | Some i \<Rightarrow> (case memorizedForm st i of
                                               None \<Rightarrow> []
                                             | Some e \<Rightarrow> (case filters_memo e of None \<Rightarrow> [] | Some m \<Rightarrow> m)));
                          h4 = assignSource h3 source' (\<lambda>src. src\<lparr>filters := fs\<rparr>);
                          g = (case truthyId (Some ip) of
                                 None \<Rightarrow> None
                               | Some i \<Rightarrow> (case memorizedForm st i of None \<Rightarrow> None | Some e \<Rightarrow> geoField e));
                          h5 = (case g of
                                  None \<Rightarrow> h4
                                | Some gf \<Rightarrow>
                                    assignSource (assignSource h4 source' (\<lambda>src. src\<lparr>geoFieldName := displayName gf\<rparr>))
                                      source' (\<lambda>src. src\<lparr>geoFieldType := type gf\<rparr>));
                          (h6, arg) = alloc h5 (ConfigObject (id_config c) source' (rest c))
                      in Some (h6, Some arg))
                   else Some (h1, None))))"

subsection \<open>What a change event is to leave and to bring\<close>

text \<open>
  The fields a handler is defined to change: with them taken from the new source and every
  other field from the old one, \<open>keepOthers\<close> is the source a handler may produce.
\<close>

fun keepOthers :: "'f event \<Rightarrow> 'f source \<Rightarrow> 'f source \<Rightarrow> 'f source" where
  "keepOthers (GeoFieldChange _) old new =
     old\<lparr>geoFieldName := geoFieldName new, geoFieldType := geoFieldType new\<rparr>"
| "keepOthers (DocumentRequestNumberChange _) old new =
     old\<lparr>documentRequestNumber := documentRequestNumber new\<rparr>"
| "keepOthers (TooltipSelectionChange _) old new = old\<lparr>tooltipFields := tooltipFields new\<rparr>"
| "keepOthers (FiltersUpdated _) old new = old\<lparr>filters := filters new\<rparr>"
| "keepOthers (ShowTooltipsChange _) old new = old\<lparr>showTooltips := showTooltips new\<rparr>"
| "keepOthers (ToggleGeoBoundingBox _) old new =
     old\<lparr>useGeoBoundingBoxFilter := useGeoBoundingBoxFilter new\<rparr>"

text \<open>
  What it is for a configuration to reflect a change, said without the handlers' own
  computations. A chosen field is reflected when the configuration names it, by the name
  under which \<open>selectedField\<close> looks a field up, and carries its type. An edited count is
  reflected when the text is an integer numeral (a sign at most, then digits, of magnitude
  at most \<open>2^53\<close>) and the configuration carries that integer, or when the text has no digit
  and the configuration carries \<open>NaN\<close>; of other texts nothing is asked. The integer a digit
  run spells is the sum of its digits weighted by the powers of ten, least significant digit
  first in \<open>positional\<close>.
\<close>

fun positional :: "string \<Rightarrow> int" where
  "positional [] = 0"
| "positional (d # ds) = digitValue d + 10 * positional ds"

definition integerSpelled :: "string \<Rightarrow> int option" where
  "integerSpelled s =
     (let negative = (s \<noteq> [] \<and> hd s = CHR ''-'');
          ds = (if s \<noteq> [] \<and> (hd s = CHR ''-'' \<or> hd s = CHR ''+'') then tl s else s);
          n = positional (rev ds)
      in if ds \<noteq> [] \<and> list_all isDigit ds \<and> n \<le> 2 ^ 53
         then Some (if negative then - n else n) else None)"

fun reflects :: "'f event \<Rightarrow> ('f, 'm) config \<Rightarrow> bool" where
  "reflects (GeoFieldChange None) c = False"
| "reflects (GeoFieldChange (Some f)) c =
     (geoFieldName (source c) = name f \<and> geoFieldType (source c) = type f)"
| "reflects (DocumentRequestNumberChange value) c =
     (case integerSpelled value of
        Some n \<Rightarrow> documentRequestNumber (source c) = Num (real_of_int n)
      | None \<Rightarrow> filter isDigit value \<noteq> [] \<or> documentRequestNumber (source c) = NaN)"
| "reflects (TooltipSelectionChange os) c = (tooltipFields (source c) = map label os)"
| "reflects (FiltersUpdated fs) c = (filters (source c) = fs)"
| "reflects (ShowTooltipsChange b) c = (showTooltips (source c) = b)"
| "reflects (ToggleGeoBoundingBox b) c = (useGeoBoundingBoxFilter (source c) = b)"

text \<open>
  The one case in which the stored name is left open: a chosen field whose display name is
  not its name.
\<close>

fun namedAsDisplayed :: "'f event \<Rightarrow> bool" where
  "namedAsDisplayed (GeoFieldChange (Some f)) = (displayName f = name f)"
| "namedAsDisplayed _ = True"

subsection \<open>Concrete inputs\<close>

definition example_source :: "nat source" where
  "example_source =
     \<lparr>indexPatternId = ''ip-1'', indexPatternRefName = ''logs'', geoFieldName = ''location'',
      geoFieldType = ''geo_point'', documentRequestNumber = Num 1000, filters = [],
      tooltipFields = [], showTooltips = False, useGeoBoundingBoxFilter = False\<rparr>"

definition example_config :: "(nat, unit) config" where
  "example_config = \<lparr>id_config = ''layer-1'', source = example_source, rest = ()\<rparr>"

definition example_pattern :: IndexPattern where
  "example_pattern =
     \<lparr>id_pattern = Some ''ip-1'', title = ''logs'',
      fields_pattern = [\<lparr>name = ''host'', displayName = ''host'', type = ''string''\<rparr>,
                        \<lparr>name = ''location'', displayName = ''location'', type = ''geo_point''\<rparr>,
                        \<lparr>name = ''agent'', displayName = [], type = ''string''\<rparr>]\<rparr>"

definition example_state :: "nat state" where
  "example_state =
     \<lparr>indexPattern = Some example_pattern, hasInvalidRequestNumber = False,
      showTooltips_state = False, memorizedForm = Map.empty\<rparr>"

definition example_store :: "(nat, unit) store" where
  "example_store = [SourceObject example_source, ConfigObject ''layer-1'' 0 ()]"

text \<open>
  An index pattern with a field whose display name is not its name, as the platform produces
  when it shortens dotted field names for display.
\<close>

definition dotted_field :: IndexPatternField where
  "dotted_field = \<lparr>name = ''geo.location'', displayName = ''g.location'', type = ''geo_point''\<rparr>"

definition dotted_pattern :: IndexPattern where
  "dotted_pattern = \<lparr>id_pattern = Some ''ip-2'', title = ''flights'', fields_pattern = [dotted_field]\<rparr>"

definition dotted_state :: "nat state" where
  "dotted_state =
     \<lparr>indexPattern = Some dotted_pattern, hasInvalidRequestNumber = False,
      showTooltips_state = False, memorizedForm = Map.empty\<rparr>"

text \<open>A state in which a selection is memorized for the index pattern \<open>ip-2\<close>.\<close>

definition memorized_state :: "nat state" where
  "memorized_state =
     \<lparr>indexPattern = Some dotted_pattern, hasInvalidRequestNumber = False,
      showTooltips_state = False,
      memorizedForm = [''ip-2'' \<mapsto> \<lparr>filters_memo = Some [7, 8], geoField = Some dotted_field\<rparr>]\<rparr>"

definition dotted_config :: "(nat, unit) config" where
  "dotted_config =
     \<lparr>id_config = ''layer-2'',
      source = example_source\<lparr>indexPatternId := ''ip-2'', indexPatternRefName := ''flights'',
                 geoFieldName := [], geoFieldType := []\<rparr>,
      rest = ()\<rparr>"

text \<open>
  An index pattern with two geo fields under the platform's shortened display names:
  \<open>geo.location.point\<close> is displayed as \<open>g.l.point\<close>, and the field named
  \<open>g.l.point\<close> as \<open>g.point\<close>.
\<close>

definition long_field :: IndexPatternField where
  "long_field = \<lparr>name = ''geo.location.point'', displayName = ''g.l.point'', type = ''geo_point''\<rparr>"

definition short_field :: IndexPatternField where
  "short_field = \<lparr>name = ''g.l.point'', displayName = ''g.point'', type = ''geo_point''\<rparr>"

definition nested_pattern :: IndexPattern where
  "nested_pattern =
     \<lparr>id_pattern = Some ''ip-3'', title = ''vessels'', fields_pattern = [long_field, short_field]\<rparr>"

definition nested_state :: "nat state" where
  "nested_state =
     \<lparr>indexPattern = Some nested_pattern, hasInvalidRequestNumber = False,
      showTooltips_state = False, memorizedForm = Map.empty\<rparr>"

definition nested_config :: "(nat, unit) config" where
  "nested_config =
     \<lparr>id_config = ''layer-3'',
      source = example_source\<lparr>indexPatternId := ''ip-3'', indexPatternRefName := ''vessels'',
                 geoFieldName := [], geoFieldType := []\<rparr>,
      rest = ()\<rparr>"

section \<open>Properties\<close>

subsection \<open>The document count and the update gate\<close>

lemma invalidRequestNumber_iff:
  "invalidRequestNumber c = (\<exists>x. documentRequestNumber (source c) = Num x \<and> (x < 1 \<or> 10000 < x))"
  by (cases "documentRequestNumber (source c)") (auto simp: invalidRequestNumber_def js_gt_def)

text \<open>
  Claim C1. The effect on the document count sets \<open>hasInvalidRequestNumber\<close> to true if
  and only if \<open>documentRequestNumber < 1\<close> or \<open>documentRequestNumber > 10000\<close> holds, the
  comparisons being those of the language (false on \<open>NaN\<close>): the count is a number below 1
  or above 10000. The boundary values 1 and 10000 are not flagged.
\<close>

theorem request_number_flag_iff_outside_range:
  "(hasInvalidRequestNumber (requestNumberEffect st c)
      \<longleftrightarrow> (\<exists>x. documentRequestNumber (source c) = Num x \<and> (x < 1 \<or> x > 10000)))
   \<and> (documentRequestNumber (source c) = Num 1 \<longrightarrow> \<not> hasInvalidRequestNumber (requestNumberEffect st c))
   \<and> (documentRequestNumber (source c) = Num 10000 \<longrightarrow> \<not> hasInvalidRequestNumber (requestNumberEffect st c))"
  by (simp add: requestNumberEffect_def invalidRequestNumber_iff)

theorem request_number_flag_witness:
  "documentRequestNumber (source (example_config\<lparr>source := example_source\<lparr>documentRequestNumber := Num 1\<rparr>\<rparr>)) = Num 1
   \<and> \<not> hasInvalidRequestNumber (requestNumberEffect example_state
          (example_config\<lparr>source := example_source\<lparr>documentRequestNumber := Num 1\<rparr>\<rparr>))
   \<and> documentRequestNumber (source (example_config\<lparr>source := example_source\<lparr>documentRequestNumber := Num 10000\<rparr>\<rparr>)) = Num 10000
   \<and> \<not> hasInvalidRequestNumber (requestNumberEffect example_state
          (example_config\<lparr>source := example_source\<lparr>documentRequestNumber := Num 10000\<rparr>\<rparr>))"
  using request_number_flag_iff_outside_range
    [of example_state "example_config\<lparr>source := example_source\<lparr>documentRequestNumber := Num 1\<rparr>\<rparr>"]
    request_number_flag_iff_outside_range
    [of example_state "example_config\<lparr>source := example_source\<lparr>documentRequestNumber := Num 10000\<rparr>\<rparr>"]
  by simp

lemma selectedField_None_iff:
  "selectedField (Some p) c = None \<longleftrightarrow>
     \<not> (\<exists>f \<in> set (fields_pattern p). type f \<in> {''geo_point'', ''geo_shape''} \<and> name f = geoFieldName (source c))"
  by (auto simp: selectedField_def geoFields_def acceptedFieldTypes_def find_None_iff)

text \<open>
  Claim C2. Whenever \<open>hasInvalidRequestNumber\<close> is true the effect passes true to
  \<open>setIsUpdateDisabled\<close>; it passes true exactly when there is no resolved index pattern,
  or no derived selected field, or the flag is true. There is no selected field exactly when
  no field of the index pattern of type \<open>geo_point\<close> or \<open>geo_shape\<close> bears the configured
  name.
\<close>

theorem update_disabled_iff:
  "(hasInvalidRequestNumber st \<longrightarrow> updateDisabledEffect st c)
   \<and> (updateDisabledEffect st c \<longleftrightarrow>
        indexPattern st = None
        \<or> selectedField (indexPattern st) c = None
        \<or> hasInvalidRequestNumber st)
   \<and> (selectedField (indexPattern st) c = None \<longleftrightarrow>
        (\<forall>p. indexPattern st = Some p \<longrightarrow>
           \<not> (\<exists>f \<in> set (fields_pattern p).
                 type f \<in> {''geo_point'', ''geo_shape''} \<and> name f = geoFieldName (source c))))"
proof (cases "indexPattern st")
  case None
  then show ?thesis
    by (simp add: updateDisabledEffect_def selectedField_def geoFields_def)
next
  case (Some p)
  then show ?thesis
    by (simp add: updateDisabledEffect_def selectedField_None_iff)
qed

theorem update_disabled_witness:
  "hasInvalidRequestNumber (example_state\<lparr>hasInvalidRequestNumber := True\<rparr>)
   \<and> updateDisabledEffect (example_state\<lparr>hasInvalidRequestNumber := True\<rparr>) example_config"
  using update_disabled_iff [of "example_state\<lparr>hasInvalidRequestNumber := True\<rparr>" example_config]
  by simp

lemma selectedField_source_eq:
  "geoFieldName (source c') = geoFieldName (source c) \<Longrightarrow> selectedField ip c' = selectedField ip c"
  by (simp add: selectedField_def cong: option.case_cong)

text \<open>
  Claim C3. For an input string that \<open>parseInt\<close> cannot parse (the empty string is one),
  \<open>onDocumentRequestNumberChange\<close> passes on a configuration whose document count is
  \<open>NaN\<close>; the validity effect on that configuration sets the flag to false, and the update
  gate then depends on the index pattern and the selected field only.
\<close>

theorem unparsable_request_number_not_flagged:
  assumes "parseInt value = NaN"
  shows "\<exists>c'. onDocumentRequestNumberChange st c value = (Some c', st)
           \<and> documentRequestNumber (source c') = NaN
           \<and> \<not> hasInvalidRequestNumber (requestNumberEffect st c')
           \<and> (updateDisabledEffect (requestNumberEffect st c') c'
                \<longleftrightarrow> indexPattern st = None \<or> selectedField (indexPattern st) c = None)"
proof -
  let ?c' = "c\<lparr>source := (source c)\<lparr>documentRequestNumber := NaN\<rparr>\<rparr>"
  have emitted: "onDocumentRequestNumberChange st c value = (Some ?c', st)"
    using assms by (simp add: onDocumentRequestNumberChange_def)
  have flag: "\<not> invalidRequestNumber ?c'"
    by (simp add: invalidRequestNumber_def js_gt_def)
  have sel: "selectedField (indexPattern st) ?c' = selectedField (indexPattern st) c"
    by (rule selectedField_source_eq) simp
  show ?thesis
    using emitted flag sel by (simp add: requestNumberEffect_def updateDisabledEffect_def)
qed

theorem unparsable_request_number_witness:
  "parseInt '''' = NaN
   \<and> (\<exists>c'. onDocumentRequestNumberChange example_state example_config '''' = (Some c', example_state)
           \<and> documentRequestNumber (source c') = NaN
           \<and> \<not> hasInvalidRequestNumber (requestNumberEffect example_state c')
           \<and> (updateDisabledEffect (requestNumberEffect example_state c') c'
                \<longleftrightarrow> indexPattern example_state = None
                     \<or> selectedField (indexPattern example_state) example_config = None))"
proof -
  have h: "parseInt '''' = NaN" by (simp add: parseInt_def)
  show ?thesis
    using h unparsable_request_number_not_flagged [OF h, of example_state example_config] by simp
qed

subsection \<open>Tooltip selection\<close>

lemma pushLabels_append: "pushLabels acc os = acc @ map label os"
  by (induction os arbitrary: acc) simp_all

text \<open>
  Claim C8. \<open>onTooltipSelectionChange\<close> passes on a configuration whose \<open>tooltipFields\<close> is
  the list of the labels of the options it was given, in their order.
\<close>

theorem tooltip_selection_written:
  "\<exists>c'. onTooltipSelectionChange st c os = (Some c', st)
         \<and> tooltipFields (source c') = map label os"
  by (simp add: onTooltipSelectionChange_def pushLabels_append)

subsection \<open>The bounding box checkbox\<close>

text \<open>
  Claim C9. The checkbox is rendered disabled exactly when \<open>source.geoFieldType\<close> is not
  \<open>geo_point\<close>; a click then delivers nothing, so a click that reaches
  \<open>onToggleGeoBoundingBox\<close> finds the type \<open>geo_point\<close>.
\<close>

theorem bounding_box_checkbox_gate:
  "(disabled (boundingBoxCheckbox c) \<longleftrightarrow> geoFieldType (source c) \<noteq> ''geo_point'')
   \<and> (geoFieldType (source c) \<noteq> ''geo_point'' \<longrightarrow> clickBoundingBoxCheckbox st c = None)
   \<and> (\<forall>r. clickBoundingBoxCheckbox st c = Some r \<longrightarrow> geoFieldType (source c) = ''geo_point'')"
  by (simp add: boundingBoxCheckbox_def clickBoundingBoxCheckbox_def)

theorem bounding_box_checkbox_witness:
  "geoFieldType (source (example_config\<lparr>source := example_source\<lparr>geoFieldType := ''geo_shape''\<rparr>\<rparr>)) \<noteq> ''geo_point''
   \<and> clickBoundingBoxCheckbox example_state
        (example_config\<lparr>source := example_source\<lparr>geoFieldType := ''geo_shape''\<rparr>\<rparr>) = None
   \<and> clickBoundingBoxCheckbox example_state example_config
        = Some (onToggleGeoBoundingBox example_state example_config True)
   \<and> geoFieldType (source example_config) = ''geo_point''"
proof -
  have e: "clickBoundingBoxCheckbox example_state example_config
        = Some (onToggleGeoBoundingBox example_state example_config True)"
    by (simp add: clickBoundingBoxCheckbox_def boundingBoxCheckbox_def example_config_def example_source_def)
  show ?thesis
    using e bounding_box_checkbox_gate
      [of "example_config\<lparr>source := example_source\<lparr>geoFieldType := ''geo_shape''\<rparr>\<rparr>" example_state]
      bounding_box_checkbox_gate [of example_config example_state]
    by simp
qed

subsection \<open>Index pattern change and the memorized selection\<close>

text \<open>
  The memorized form is written under truthy index-pattern ids only, so it never holds an
  entry for the empty string; the handlers other than \<open>onGeoFieldChange\<close> with a field and
  \<open>onFiltersUpdated\<close> leave it as it is, and the index pattern change effect only reads it.
\<close>

lemma memorizedForm_empty_key_handle:
  "memorizedForm st [] = None \<Longrightarrow> memorizedForm (snd (handle st c ev)) [] = None"
  by (cases ev)
     (auto simp: onGeoFieldChange_def onDocumentRequestNumberChange_def
        onTooltipSelectionChange_def onFiltersUpdated_def onShowTooltipsChange_def
        onToggleGeoBoundingBox_def truthyId_def Let_def split: option.splits if_splits)

lemma memorizedForm_empty_key_effects:
  "memorizedForm st [] = None \<Longrightarrow>
     memorizedForm (memorizationEffect st c) [] = None
     \<and> memorizedForm (requestNumberEffect st c) [] = None"
  by (auto simp: memorizationEffect_def requestNumberEffect_def truthyId_def
        split: option.splits if_splits)

lemma memorizedForm_written_only_by:
  "memorizedForm (snd (handle st c ev)) \<noteq> memorizedForm st \<Longrightarrow>
     (\<exists>f. ev = GeoFieldChange (Some f)) \<or> (\<exists>fs. ev = FiltersUpdated fs)"
  by (cases ev)
     (auto simp: onGeoFieldChange_def onDocumentRequestNumberChange_def
        onTooltipSelectionChange_def onShowTooltipsChange_def
        onToggleGeoBoundingBox_def Let_def split: option.splits)

text \<open>
  Claim C4. When the resolved index pattern has an id that differs from
  \<open>source.indexPatternId\<close>, the effect passes on a configuration whose \<open>indexPatternId\<close>
  is that id and whose \<open>indexPatternRefName\<close> is the pattern's title; its filters are the
  memorized filters of that id when there are some and the empty list otherwise; and when a
  geo field is memorized for that id, \<open>geoFieldName\<close> and \<open>geoFieldType\<close> are its
  \<open>displayName\<close> and \<open>type\<close>. The memorized form holds no entry for the empty string, as
  in every state the component reaches.
\<close>

theorem index_pattern_change_restores_memorized:
  assumes "indexPattern st = Some ip"
    and "id_pattern ip = Some i"
    and "i \<noteq> indexPatternId (source c)"
    and "memorizedForm st [] = None"
  shows "\<exists>c'. indexPatternChangeEffect st c = Some c'
           \<and> indexPatternId (source c') = i
           \<and> indexPatternRefName (source c') = title ip
           \<and> filters (source c') =
               (case memorizedForm st i of
                  None \<Rightarrow> []
                | Some e \<Rightarrow> (case filters_memo e of None \<Rightarrow> [] | Some m \<Rightarrow> m))
           \<and> (\<forall>e g. memorizedForm st i = Some e \<and> geoField e = Some g \<longrightarrow>
                 geoFieldName (source c') = displayName g \<and> geoFieldType (source c') = type g)"
  using assms
  by (auto simp: indexPatternChangeEffect_def truthyId_def Let_def split: option.splits)

theorem index_pattern_change_witness:
  "indexPattern memorized_state = Some dotted_pattern
   \<and> id_pattern dotted_pattern = Some ''ip-2''
   \<and> ''ip-2'' \<noteq> indexPatternId (source example_config)
   \<and> memorizedForm memorized_state [] = None
   \<and> (\<exists>c'. indexPatternChangeEffect memorized_state example_config = Some c'
          \<and> indexPatternId (source c') = ''ip-2''
          \<and> indexPatternRefName (source c') = ''flights''
          \<and> filters (source c') = [7, 8]
          \<and> geoFieldName (source c') = ''g.location''
          \<and> geoFieldType (source c') = ''geo_point'')"
proof -
  have h1: "indexPattern memorized_state = Some dotted_pattern"
    by (simp add: memorized_state_def)
  have h2: "id_pattern dotted_pattern = Some ''ip-2''"
    by (simp add: dotted_pattern_def)
  have h3: "''ip-2'' \<noteq> indexPatternId (source example_config)"
    by (simp add: example_config_def example_source_def)
  have h4: "memorizedForm memorized_state [] = None"
    by (simp add: memorized_state_def)
  have m: "memorizedForm memorized_state ''ip-2''
             = Some \<lparr>filters_memo = Some [7, 8], geoField = Some dotted_field\<rparr>"
    by (simp add: memorized_state_def)
  show ?thesis
    using h1 h2 h3 h4 index_pattern_change_restores_memorized [OF h1 h2 h3 h4]
    by (simp add: m dotted_pattern_def dotted_field_def)
qed

subsection \<open>Selecting a geospatial field\<close>

text \<open>
  Claim C5. Selecting a field of \<open>geoFields\<close> is to round-trip: the selected field derived
  from the configuration that \<open>onGeoFieldChange\<close> passes on is to be the field the handler
  was given. The handler stores the field's \<open>displayName\<close> while the derivation compares
  the stored string with each field's \<open>name\<close>. In \<open>nested_pattern\<close> the combo box offers
  the labels \<open>g.l.point\<close> and \<open>g.point\<close>; on the choice of the first its \<open>onChange\<close>
  finds the field named \<open>g.l.point\<close>, a geo field, and gives it to the handler, which
  stores \<open>g.point\<close>: no field bears that name, and the derived selection is undefined.
\<close>

theorem geo_field_round_trip_fails:
  "geoFields (Some nested_pattern) = Some [long_field, short_field]
   \<and> formatFieldsToComboBox (geoFields (Some nested_pattern))
        = [\<lparr>label = ''g.l.point''\<rparr>, \<lparr>label = ''g.point''\<rparr>]
   \<and> geoFieldSelect_onChange nested_state nested_config [\<lparr>label = ''g.l.point''\<rparr>]
        = Inr (onGeoFieldChange nested_state nested_config (Some short_field))
   \<and> fst (onGeoFieldChange nested_state nested_config (Some short_field))
        = Some (nested_config\<lparr>source := (source nested_config)
                  \<lparr>geoFieldName := ''g.point'', geoFieldType := ''geo_point''\<rparr>\<rparr>)
   \<and> selectedField (Some nested_pattern)
        (nested_config\<lparr>source := (source nested_config)
           \<lparr>geoFieldName := ''g.point'', geoFieldType := ''geo_point''\<rparr>\<rparr>) = None"
  by (simp add: geoFields_def nested_pattern_def long_field_def short_field_def
        acceptedFieldTypes_def formatFieldsToComboBox_def fieldLabel_def
        geoFieldSelect_onChange_def nested_state_def getFieldByName_def
        onGeoFieldChange_def selectedField_def)

text \<open>
  Where the display name of the chosen field is its name and the geo fields bear distinct
  names, the selection does round-trip.
\<close>

lemma find_distinct_names:
  "distinct (map name gs) \<Longrightarrow> f \<in> set gs \<Longrightarrow> find (\<lambda>field. name field = name f) gs = Some f"
  by (induction gs) (auto simp: rev_image_eqI)

lemma geo_field_round_trip_when_names_agree:
  assumes "geoFields ip = Some gs" and "f \<in> set gs"
    and "displayName f = name f" and "distinct (map name gs)"
  shows "\<exists>c'. fst (onGeoFieldChange st c (Some f)) = Some c' \<and> selectedField ip c' = Some f"
  using assms by (simp add: onGeoFieldChange_def selectedField_def find_distinct_names)

text \<open>
  The combo box's \<open>onChange\<close> passes on \<open>null\<close> when no field bears the chosen label,
  as for the one option of \<open>dotted_pattern\<close>, and throws on an empty selection.
\<close>

lemma geoFieldSelect_missing_field:
  "formatFieldsToComboBox (geoFields (Some dotted_pattern)) = [\<lparr>label = ''g.location''\<rparr>]
   \<and> geoFieldSelect_onChange dotted_state dotted_config [\<lparr>label = ''g.location''\<rparr>]
        = Inr (None, dotted_state)"
  by (simp add: geoFields_def dotted_pattern_def dotted_field_def acceptedFieldTypes_def
        formatFieldsToComboBox_def fieldLabel_def geoFieldSelect_onChange_def dotted_state_def
        getFieldByName_def onGeoFieldChange_def)

lemma geoFieldSelect_empty_selection:
  "indexPattern st = Some p \<Longrightarrow> geoFieldSelect_onChange st c [] = Inl TypeError"
  by (simp add: geoFieldSelect_onChange_def)

subsection \<open>What the change handlers pass on\<close>

text \<open>
  The handlers over the store agree with the handlers over values; a call allocates the new
  source object and then the new configuration object, and writes nowhere else.
\<close>

lemma handle_frame:
  "fst (handle st c ev) = Some c' \<Longrightarrow>
     id_config c' = id_config c \<and> rest c' = rest c
     \<and> source c' = keepOthers ev (source c) (source c')"
  by (cases ev)
     (auto simp: onGeoFieldChange_def onDocumentRequestNumberChange_def
        onTooltipSelectionChange_def onFiltersUpdated_def onShowTooltipsChange_def
        onToggleGeoBoundingBox_def Let_def split: option.splits)

lemma deref_append: "deref h a = Some c \<Longrightarrow> deref (h @ xs) a = Some c"
  by (auto simp: deref_def nth_append split: if_splits object.splits)

lemma deref_allocated:
  "deref (h @ [SourceObject src, ConfigObject i (length h) r]) (Suc (length h))
     = Some \<lparr>id_config = i, source = src, rest = r\<rparr>"
  by (simp add: deref_def nth_append)

lemma handle_store_agrees:
  assumes "deref h a = Some c"
  shows "handle_store h a st ev =
           (case handle st c ev of
              (None, st') \<Rightarrow> Some (h, None, st')
            | (Some c', st') \<Rightarrow>
                Some (h @ [SourceObject (source c'), ConfigObject (id_config c) (length h) (rest c)],
                      Some (Suc (length h)), st'))"
  using assms
  by (cases ev)
     (auto simp: onGeoFieldChange_def onGeoFieldChange_store_def
        onDocumentRequestNumberChange_def onDocumentRequestNumberChange_store_def
        onTooltipSelectionChange_def onTooltipSelectionChange_store_def
        onFiltersUpdated_def onFiltersUpdated_store_def
        onShowTooltipsChange_def onShowTooltipsChange_store_def
        onToggleGeoBoundingBox_def onToggleGeoBoundingBox_store_def
        alloc_def Let_def split: option.splits)


lemma handle_calls:
  "ev \<noteq> GeoFieldChange None \<Longrightarrow> \<exists>c' st'. handle st c ev = (Some c', st')"
proof (cases ev)
  case (GeoFieldChange field)
  assume "ev \<noteq> GeoFieldChange None"
  with GeoFieldChange obtain f where "field = Some f" by (cases field) auto
  with GeoFieldChange show ?thesis by (simp add: onGeoFieldChange_def)
qed (simp_all add: onDocumentRequestNumberChange_def onTooltipSelectionChange_def
       onFiltersUpdated_def onShowTooltipsChange_def onToggleGeoBoundingBox_def Let_def)

text \<open>
  Claim C6, as amended. Every change handler, \<open>onGeoFieldChange\<close> when its field is not
  null, calls \<open>setSelectedLayerConfig\<close> with an object that is new, as is that object's
  \<open>source\<close> (their addresses lie beyond the store the handler found); every object of the
  store the handler found is unchanged, so the configuration it received reads as before;
  and the configuration passed on has the \<open>id\<close> and the other properties of the received
  one and a source that differs from the received source at most in the fields the handler
  is defined to change.
\<close>

theorem handlers_pass_fresh_copy:
  assumes "deref h a = Some c" and "ev \<noteq> GeoFieldChange None"
  shows "\<exists>h' a' st' c'. handle_store h a st ev = Some (h', Some a', st')
           \<and> deref h' a' = Some c'
           \<and> length h \<le> a'
           \<and> (\<exists>i s r. h' ! a' = ConfigObject i s r \<and> length h \<le> s)
           \<and> take (length h) h' = h
           \<and> deref h' a = Some c
           \<and> id_config c' = id_config c \<and> rest c' = rest c
           \<and> source c' = keepOthers ev (source c) (source c')"
proof -
  from assms(2) obtain c' st' where call: "handle st c ev = (Some c', st')"
    using handle_calls by blast
  let ?h' = "h @ [SourceObject (source c'), ConfigObject (id_config c) (length h) (rest c)]"
  have frame: "id_config c' = id_config c \<and> rest c' = rest c
     \<and> source c' = keepOthers ev (source c) (source c')"
    using call handle_frame [of st c ev c'] by simp
  have run: "handle_store h a st ev = Some (?h', Some (Suc (length h)), st')"
    using call by (simp add: handle_store_agrees [OF assms(1)])
  have "deref ?h' (Suc (length h)) = Some \<lparr>id_config = id_config c, source = source c', rest = rest c\<rparr>"
    by (rule deref_allocated)
  then have new: "deref ?h' (Suc (length h)) = Some c'"
    using frame by simp
  have old: "deref ?h' a = Some c"
    using assms(1) by (rule deref_append)
  have obj: "?h' ! Suc (length h) = ConfigObject (id_config c) (length h) (rest c)"
    by (simp add: nth_append)
  have pre: "take (length h) ?h' = h" by simp
  show ?thesis
    using run new old obj pre frame by (intro exI [of _ ?h'] exI [of _ "Suc (length h)"] exI [of _ st'] exI [of _ c']) auto
qed

theorem handlers_pass_fresh_copy_witness:
  "deref example_store 1 = Some example_config
   \<and> (ToggleGeoBoundingBox True :: nat event) \<noteq> GeoFieldChange None
   \<and> handle_store example_store 1 example_state (ToggleGeoBoundingBox True)
     = Some (example_store @ [SourceObject (example_source\<lparr>useGeoBoundingBoxFilter := True\<rparr>),
                              ConfigObject ''layer-1'' 2 ()], Some 3, example_state)
   \<and> (\<exists>c'. deref (example_store @ [SourceObject (example_source\<lparr>useGeoBoundingBoxFilter := True\<rparr>),
                              ConfigObject ''layer-1'' 2 ()]) 3 = Some c'
         \<and> id_config c' = id_config example_config \<and> rest c' = rest example_config
         \<and> source c' = keepOthers (ToggleGeoBoundingBox True) (source example_config) (source c'))"
proof -
  have d: "deref example_store 1 = Some example_config"
    by (simp add: deref_def example_store_def example_config_def)
  have n: "(ToggleGeoBoundingBox True :: nat event) \<noteq> GeoFieldChange None" by simp
  have l: "length example_store = 2"
    by (simp add: example_store_def)
  have r: "handle_store example_store 1 example_state (ToggleGeoBoundingBox True)
     = Some (example_store @ [SourceObject (example_source\<lparr>useGeoBoundingBoxFilter := True\<rparr>),
                              ConfigObject ''layer-1'' 2 ()], Some 3, example_state)"
    using d by (simp add: onToggleGeoBoundingBox_store_def alloc_def l example_config_def)
  show ?thesis
    using d n r handlers_pass_fresh_copy [OF d n, of example_state] by auto
qed

text \<open>
  Claim C6 as stated fails: given no field, \<open>onGeoFieldChange\<close> passes no object at all
  (and leaves the store as it is).
\<close>

theorem null_geo_field_passes_no_object:
  "handle_store example_store 1 example_state (GeoFieldChange None)
     = Some (example_store, None, example_state)"
  by (simp add: onGeoFieldChange_store_def deref_def example_store_def)

text \<open>
  The effect of an index pattern change, which assigns to the copy it has made, agrees with
  its embedding over values as well; the objects it found are not written to.
\<close>

lemma assignSource_allocated:
  "assignSource (h @ [SourceObject src]) (length h) upd = h @ [SourceObject (upd src)]"
  by (simp add: assignSource_def)

lemma indexPatternChangeEffect_store_agrees:
  assumes "deref h a = Some c"
  shows "indexPatternChangeEffect_store h a st =
           (case indexPatternChangeEffect st c of
              None \<Rightarrow> Some (h @ [SourceObject (source c)], None)
            | Some c' \<Rightarrow>
                Some (h @ [SourceObject (source c'), ConfigObject (id_config c) (length h) (rest c)],
                      Some (Suc (length h))))"
  using assms
  by (auto simp: indexPatternChangeEffect_store_def indexPatternChangeEffect_def alloc_def
        assignSource_allocated Let_def split: option.splits)

subsection \<open>Change events and the configuration passed on\<close>

lemma decimalValue_snoc: "decimalValue (ds @ [d]) = 10 * decimalValue ds + digitValue d"
  by (simp add: decimalValue_def)

lemma decimalValue_positional: "decimalValue ds = positional (rev ds)"
  by (induction ds rule: rev_induct) (simp_all add: decimalValue_snoc, simp add: decimalValue_def)

lemma digit_not_space_or_sign:
  "isDigit c \<Longrightarrow> \<not> isWhiteSpace c \<and> c \<noteq> CHR ''-'' \<and> c \<noteq> CHR ''+''"
  by (auto simp: isDigit_def isWhiteSpace_def)

lemma sign_not_space: "\<not> isWhiteSpace CHR ''-'' \<and> \<not> isWhiteSpace CHR ''+''"
  by (simp add: isWhiteSpace_def)

lemma takeWhile_all: "list_all P xs \<Longrightarrow> takeWhile P xs = xs"
  by (induction xs) simp_all

lemma parseInt_integerSpelled:
  assumes "integerSpelled s = Some n"
  shows "parseInt s = Num (real_of_int n)"
proof (cases s)
  case Nil
  with assms show ?thesis by (simp add: integerSpelled_def)
next
  case (Cons c cs)
  show ?thesis
  proof (cases "c = CHR ''-'' \<or> c = CHR ''+''")
    case True
    with assms Cons have cs: "cs \<noteq> []" "list_all isDigit cs"
      and n: "n = (if c = CHR ''-'' then - positional (rev cs) else positional (rev cs))"
      by (auto simp: integerSpelled_def Let_def split: if_splits)
    have "\<not> isWhiteSpace c" using True sign_not_space by auto
    then have "dropWhile isWhiteSpace s = s" using Cons by simp
    then show ?thesis
      using True Cons cs n
      by (auto simp: parseInt_def Let_def takeWhile_all decimalValue_positional)
  next
    case False
    with assms Cons have s: "list_all isDigit s" and n: "n = positional (rev s)"
      by (auto simp: integerSpelled_def Let_def split: if_splits)
    from s Cons have "isDigit c" by simp
    then have "\<not> isWhiteSpace c" using digit_not_space_or_sign by blast
    then have "dropWhile isWhiteSpace s = s" using Cons by simp
    then show ?thesis
      using False Cons s n
      by (auto simp: parseInt_def Let_def takeWhile_all decimalValue_positional)
  qed
qed

lemma takeWhile_none: "\<forall>x \<in> set xs. \<not> P x \<Longrightarrow> takeWhile P xs = []"
  by (cases xs) simp_all

lemma ball_tl: "\<forall>x \<in> set xs. Q x \<Longrightarrow> \<forall>x \<in> set (tl xs). Q x"
  by (cases xs) simp_all

lemma parseInt_no_digit:
  assumes "filter isDigit s = []"
  shows "parseInt s = NaN"
proof -
  have none: "\<forall>c \<in> set s. \<not> isDigit c"
    using assms by (simp add: filter_empty_conv)
  let ?S = "dropWhile isWhiteSpace s"
  have S: "\<forall>c \<in> set ?S. \<not> isDigit c"
    using none by (meson set_dropWhileD)
  have T: "\<forall>c \<in> set (tl ?S). \<not> isDigit c"
    using S by (rule ball_tl)
  have "takeWhile isDigit ?S = []" using S by (rule takeWhile_none)
  moreover have "takeWhile isDigit (tl ?S) = []" using T by (rule takeWhile_none)
  ultimately show ?thesis
    by (simp add: parseInt_def Let_def)
qed

text \<open>
  Claim C7, as amended. Every call of a change handler other than \<open>onGeoFieldChange\<close>
  without a field calls \<open>setSelectedLayerConfig\<close> with a configuration that reflects the
  change; for a chosen field whose display name is not its name the configuration carries
  the field's type, and the name it stores is left open here. Without a field
  \<open>onGeoFieldChange\<close> makes no call (the guard \<open>if (field)\<close>). With an index pattern and a
  non-empty selection, the combo box's \<open>onChange\<close> is the call of \<open>onGeoFieldChange\<close>
  with the field that bears the label of the first option, or without a field if there is
  none.
\<close>

theorem change_event_emits_configuration:
  "(ev \<noteq> GeoFieldChange None \<longrightarrow>
      (\<exists>c'. fst (handle st c ev) = Some c'
          \<and> (namedAsDisplayed ev \<longrightarrow> reflects ev c')
          \<and> (\<forall>f. ev = GeoFieldChange (Some f) \<longrightarrow> geoFieldType (source c') = type f)))
   \<and> handle st c (GeoFieldChange None) = (None, st)
   \<and> (\<forall>p opt opts. indexPattern st = Some p \<longrightarrow>
         geoFieldSelect_onChange st c (opt # opts)
           = Inr (handle st c (GeoFieldChange (getFieldByName p (label opt)))))"
proof (intro conjI impI allI)
  assume "ev \<noteq> GeoFieldChange None"
  then show "\<exists>c'. fst (handle st c ev) = Some c'
          \<and> (namedAsDisplayed ev \<longrightarrow> reflects ev c')
          \<and> (\<forall>f. ev = GeoFieldChange (Some f) \<longrightarrow> geoFieldType (source c') = type f)"
  proof (cases ev)
    case (GeoFieldChange field)
    assume "ev \<noteq> GeoFieldChange None"
    with GeoFieldChange obtain f where "field = Some f" by (cases field) auto
    with GeoFieldChange show ?thesis by (simp add: onGeoFieldChange_def)
  next
    case (DocumentRequestNumberChange v)
    have "reflects (DocumentRequestNumberChange v)
            (c\<lparr>source := (source c)\<lparr>documentRequestNumber := parseInt v\<rparr>\<rparr>)"
      by (auto simp: parseInt_integerSpelled parseInt_no_digit split: option.splits)
    with DocumentRequestNumberChange show ?thesis
      by (simp add: onDocumentRequestNumberChange_def)
  next
    case (TooltipSelectionChange os)
    then show ?thesis by (simp add: onTooltipSelectionChange_def pushLabels_append)
  next
    case (FiltersUpdated fs)
    then show ?thesis by (simp add: onFiltersUpdated_def)
  next
    case (ShowTooltipsChange b)
    then show ?thesis by (simp add: onShowTooltipsChange_def)
  next
    case (ToggleGeoBoundingBox b)
    then show ?thesis by (simp add: onToggleGeoBoundingBox_def)
  qed
next
  show "handle st c (GeoFieldChange None) = (None, st)"
    by (simp add: onGeoFieldChange_def)
next
  fix p opt opts
  assume "indexPattern st = Some p"
  then show "geoFieldSelect_onChange st c (opt # opts)
           = Inr (handle st c (GeoFieldChange (getFieldByName p (label opt))))"
    by (simp add: geoFieldSelect_onChange_def)
qed

theorem change_event_witness:
  "(DocumentRequestNumberChange ''250'' :: nat event) \<noteq> GeoFieldChange None
   \<and> namedAsDisplayed (DocumentRequestNumberChange ''250'' :: nat event)
   \<and> integerSpelled ''250'' = Some 250
   \<and> (\<exists>c'. fst (handle example_state example_config (DocumentRequestNumberChange ''250'')) = Some c'
          \<and> documentRequestNumber (source c') = Num 250)
   \<and> indexPattern example_state = Some example_pattern
   \<and> getFieldByName example_pattern ''location''
        = Some \<lparr>name = ''location'', displayName = ''location'', type = ''geo_point''\<rparr>
   \<and> (\<exists>c'. geoFieldSelect_onChange example_state example_config [\<lparr>label = ''location''\<rparr>]
               = Inr (Some c', snd (handle example_state example_config
                        (GeoFieldChange (Some \<lparr>name = ''location'', displayName = ''location'', type = ''geo_point''\<rparr>))))
          \<and> geoFieldName (source c') = ''location'' \<and> geoFieldType (source c') = ''geo_point'')"
proof -
  let ?ev = "DocumentRequestNumberChange ''250'' :: nat event"
  let ?f = "\<lparr>name = ''location'', displayName = ''location'', type = ''geo_point''\<rparr>"
  let ?gv = "GeoFieldChange (Some ?f) :: nat event"
  have h: "?ev \<noteq> GeoFieldChange None" by simp
  have i: "integerSpelled ''250'' = Some 250"
    by (simp add: integerSpelled_def isDigit_def digitValue_def)
  have p: "indexPattern example_state = Some example_pattern"
    by (simp add: example_state_def)
  have g: "getFieldByName example_pattern ''location'' = Some ?f"
    by (simp add: getFieldByName_def example_pattern_def)
  note t = change_event_emits_configuration [of ?ev example_state example_config]
  note u = change_event_emits_configuration [of ?gv example_state example_config]
  from t h obtain c1 where c1: "fst (handle example_state example_config ?ev) = Some c1"
    and r1: "reflects ?ev c1" by auto
  from r1 i have n1: "documentRequestNumber (source c1) = Num 250" by simp
  from u obtain c2 where c2: "fst (handle example_state example_config ?gv) = Some c2"
    and r2: "reflects ?gv c2" by auto
  from u p g have w: "geoFieldSelect_onChange example_state example_config [\<lparr>label = ''location''\<rparr>]
               = Inr (handle example_state example_config ?gv)"
    by (metis ComboBoxOption.select_convs(1))
  have w2: "geoFieldSelect_onChange example_state example_config [\<lparr>label = ''location''\<rparr>]
               = Inr (Some c2, snd (handle example_state example_config ?gv))"
    using w c2 by (metis prod.collapse)
  show ?thesis
    using h i c1 n1 p g w2 r2 by auto
qed

text \<open>
  Claim C7 as stated fails: delivered without a field, the geo field change makes no call.
\<close>

theorem null_geo_field_emits_nothing:
  "fst (handle example_state example_config (GeoFieldChange None)) = None"
  by (simp add: onGeoFieldChange_def)

subsection \<open>Tooltip field options\<close>

lemma groupBy_assign_map_of:
  "map_of (groupBy_assign d k v)
     = (map_of d)(k \<mapsto> (case map_of d k of None \<Rightarrow> [v] | Some vs \<Rightarrow> vs @ [v]))"
  by (induction d k v rule: groupBy_assign.induct) auto

lemma groupBy_assign_keys:
  "map fst (groupBy_assign d k v) = (if k \<in> fst ` set d then map fst d else map fst d @ [k])"
  by (induction d k v rule: groupBy_assign.induct) auto

lemma groupBy_assign_distinct:
  "distinct (map fst d) \<Longrightarrow> distinct (map fst (groupBy_assign d k v))"
  by (simp add: groupBy_assign_keys)

lemma groupBy_invariant:
  "distinct (map fst (groupBy xs f))
   \<and> (\<forall>k. map_of (groupBy xs f) k
            = (if k \<in> f ` set xs then Some (filter (\<lambda>x. f x = k) xs) else None))"
proof (induction xs rule: rev_induct)
  case Nil
  then show ?case by (simp add: groupBy_def)
next
  case (snoc x xs)
  have step: "groupBy (xs @ [x]) f = groupBy_assign (groupBy xs f) (f x) x"
    by (simp add: groupBy_def)
  show ?case
  proof (intro conjI allI)
    show "distinct (map fst (groupBy (xs @ [x]) f))"
      using snoc by (simp add: step groupBy_assign_distinct)
  next
    fix k
    have absent: "filter (\<lambda>y. f y = f x) xs = []" if "f x \<notin> f ` set xs"
    proof -
      have "f y \<noteq> f x" if "y \<in> set xs" for y
        using that \<open>f x \<notin> f ` set xs\<close> by (metis image_eqI)
      then show ?thesis by (simp add: filter_empty_conv)
    qed
    show "map_of (groupBy (xs @ [x]) f) k
            = (if k \<in> f ` set (xs @ [x]) then Some (filter (\<lambda>y. f y = k) (xs @ [x])) else None)"
      using snoc absent by (cases "k = f x") (auto simp: step groupBy_assign_map_of)
  qed
qed

lemma groupBy_member:
  "(k, vs) \<in> set (groupBy xs f) \<longleftrightarrow> k \<in> f ` set xs \<and> vs = filter (\<lambda>x. f x = k) xs"
proof -
  have d: "distinct (map fst (groupBy xs f))"
    and m: "map_of (groupBy xs f) k
              = (if k \<in> f ` set xs then Some (filter (\<lambda>x. f x = k) xs) else None)"
    using groupBy_invariant [of xs f] by simp_all
  have "(k, vs) \<in> set (groupBy xs f) \<longleftrightarrow> map_of (groupBy xs f) k = Some vs"
    using map_of_eq_Some_iff [OF d] by simp
  then show ?thesis
    by (auto simp: m)
qed

lemma groupBy_keys: "fst ` set (groupBy xs f) = f ` set xs"
proof (intro set_eqI iffI)
  fix k assume "k \<in> fst ` set (groupBy xs f)"
  then obtain vs where "(k, vs) \<in> set (groupBy xs f)" by auto
  then show "k \<in> f ` set xs" by (simp add: groupBy_member)
next
  fix k assume "k \<in> f ` set xs"
  then have "(k, filter (\<lambda>x. f x = k) xs) \<in> set (groupBy xs f)"
    by (simp add: groupBy_member)
  then show "k \<in> fst ` set (groupBy xs f)"
    by (rule rev_image_eqI) simp
qed

lemma Object_entries_set: "set (Object_entries obj) = set obj"
  by (auto simp: Object_entries_def)

lemma Object_entries_distinct:
  assumes "distinct (map fst obj)"
  shows "distinct (map fst (Object_entries obj))"
proof -
  have d: "distinct obj" and i: "inj_on fst (set obj)"
    using assms by (simp_all add: distinct_map)
  have "distinct (Object_entries obj)"
    using d by (auto simp: Object_entries_def)
  moreover have "inj_on fst (set (Object_entries obj))"
    using i by (simp add: Object_entries_set)
  ultimately show ?thesis by (simp add: distinct_map)
qed

lemma pushFieldLabels_append:
  "pushFieldLabels acc fs = acc @ map (\<lambda>f. \<lparr>label = fieldLabel f\<rparr>) fs"
  by (induction fs arbitrary: acc) simp_all

lemma forEachEntry_foldl:
  "foldl forEachEntry (acc, []) es
     = (acc @ map (\<lambda>e. \<lparr>label_group = fst e,
                          options_group = map (\<lambda>f. \<lparr>label = fieldLabel f\<rparr>) (snd e)\<rparr>) es, [])"
  by (induction es arbitrary: acc) (auto simp: pushFieldLabels_append)

lemma tooltipFieldsOptions_Some:
  "tooltipFieldsOptions (Some p)
     = map (\<lambda>e. \<lparr>label_group = fst e,
                   options_group = map (\<lambda>f. \<lparr>label = fieldLabel f\<rparr>) (snd e)\<rparr>)
         (Object_entries (groupBy (fields_pattern p) type))"
  by (simp add: tooltipFieldsOptions_def forEachEntry_foldl)

lemma count_one_key:
  "distinct ks \<Longrightarrow> k \<in> set ks \<Longrightarrow> (\<Sum>k'\<leftarrow>ks. if k = k' then 1 else 0) = (1::nat)"
  by (induction ks) auto

lemma filter_lengths_sum:
  "distinct ks \<Longrightarrow> f ` set xs \<subseteq> set ks \<Longrightarrow>
     (\<Sum>k\<leftarrow>ks. length (filter (\<lambda>x. f x = k) xs)) = length xs"
proof (induction xs)
  case Nil
  then show ?case by simp
next
  case (Cons x xs)
  have "(\<Sum>k\<leftarrow>ks. length (filter (\<lambda>y. f y = k) (x # xs)))
          = (\<Sum>k\<leftarrow>ks. (if f x = k then 1 else 0) + length (filter (\<lambda>y. f y = k) xs))"
    by (rule arg_cong [where f = sum_list]) simp
  also have "\<dots> = (\<Sum>k\<leftarrow>ks. if f x = k then 1 else 0) + (\<Sum>k\<leftarrow>ks. length (filter (\<lambda>y. f y = k) xs))"
    by (simp add: sum_list_addf)
  also have "\<dots> = 1 + length xs"
    using Cons by (simp add: count_one_key)
  finally show ?case by simp
qed


lemma tooltip_group_labels:
  "map label_group (tooltipFieldsOptions (Some p))
     = map fst (Object_entries (groupBy (fields_pattern p) type))"
  by (simp add: tooltipFieldsOptions_Some comp_def)

lemma tooltip_group_member:
  "g \<in> set (tooltipFieldsOptions (Some p)) \<longleftrightarrow>
     label_group g \<in> type ` set (fields_pattern p)
     \<and> options_group g
         = map (\<lambda>f. \<lparr>label = fieldLabel f\<rparr>) (filter (\<lambda>f. type f = label_group g) (fields_pattern p))"
proof
  assume "g \<in> set (tooltipFieldsOptions (Some p))"
  then obtain k vs where "(k, vs) \<in> set (groupBy (fields_pattern p) type)"
    and "g = \<lparr>label_group = k, options_group = map (\<lambda>f. \<lparr>label = fieldLabel f\<rparr>) vs\<rparr>"
    by (auto simp: tooltipFieldsOptions_Some Object_entries_set)
  then show "label_group g \<in> type ` set (fields_pattern p)
     \<and> options_group g
         = map (\<lambda>f. \<lparr>label = fieldLabel f\<rparr>) (filter (\<lambda>f. type f = label_group g) (fields_pattern p))"
    by (simp add: groupBy_member)
next
  assume a: "label_group g \<in> type ` set (fields_pattern p)
     \<and> options_group g
         = map (\<lambda>f. \<lparr>label = fieldLabel f\<rparr>) (filter (\<lambda>f. type f = label_group g) (fields_pattern p))"
  let ?e = "(label_group g, filter (\<lambda>f. type f = label_group g) (fields_pattern p))"
  have e: "?e \<in> set (Object_entries (groupBy (fields_pattern p) type))"
    using a by (simp add: Object_entries_set groupBy_member)
  have g: "g = \<lparr>label_group = fst ?e, options_group = map (\<lambda>f. \<lparr>label = fieldLabel f\<rparr>) (snd ?e)\<rparr>"
    using a by simp
  show "g \<in> set (tooltipFieldsOptions (Some p))"
    unfolding tooltipFieldsOptions_Some set_map
    by (rule rev_image_eqI [where x = ?e]) (use e g in simp_all)
qed


lemma fieldLabel_cases:
  "fieldLabel f = (if displayName f \<noteq> [] then displayName f else name f)"
  by (simp add: fieldLabel_def)

text \<open>
  Claim C10. Without a resolved index pattern \<open>tooltipFieldsOptions\<close> is the empty list.
  Otherwise its groups bear distinct labels, the labels are the types of the pattern's fields,
  the options of a group are the fields of the group's type, in their order, each labelled
  by its display name when that is a non-empty string and by its name otherwise; so every
  field lies in exactly one group, and the groups hold as many options as the pattern has
  fields.
\<close>

theorem tooltip_options_partition_by_type:
  "tooltipFieldsOptions None = []
   \<and> distinct (map label_group (tooltipFieldsOptions (Some p)))
   \<and> set (map label_group (tooltipFieldsOptions (Some p))) = type ` set (fields_pattern p)
   \<and> (\<forall>g \<in> set (tooltipFieldsOptions (Some p)).
         options_group g
           = map (\<lambda>f. \<lparr>label = (if displayName f \<noteq> [] then displayName f else name f)\<rparr>)
               (filter (\<lambda>f. type f = label_group g) (fields_pattern p)))
   \<and> (\<forall>f \<in> set (fields_pattern p).
         \<exists>!g. g \<in> set (tooltipFieldsOptions (Some p)) \<and> label_group g = type f)
   \<and> (\<Sum>g\<leftarrow>tooltipFieldsOptions (Some p). length (options_group g)) = length (fields_pattern p)"
proof (intro conjI ballI)
  show "tooltipFieldsOptions None = []"
    by (simp add: tooltipFieldsOptions_def)
next
  show d: "distinct (map label_group (tooltipFieldsOptions (Some p)))"
    using groupBy_invariant [of "fields_pattern p" type]
    by (simp add: tooltip_group_labels Object_entries_distinct)
next
  show "set (map label_group (tooltipFieldsOptions (Some p))) = type ` set (fields_pattern p)"
    by (simp add: tooltip_group_labels Object_entries_set groupBy_keys)
next
  fix g assume "g \<in> set (tooltipFieldsOptions (Some p))"
  then show "options_group g
           = map (\<lambda>f. \<lparr>label = (if displayName f \<noteq> [] then displayName f else name f)\<rparr>)
               (filter (\<lambda>f. type f = label_group g) (fields_pattern p))"
    by (simp add: tooltip_group_member fieldLabel_cases)
next
  fix f assume f: "f \<in> set (fields_pattern p)"
  let ?g = "\<lparr>label_group = type f,
             options_group = map (\<lambda>f. \<lparr>label = fieldLabel f\<rparr>)
                               (filter (\<lambda>f'. type f' = type f) (fields_pattern p))\<rparr>"
  have "?g \<in> set (tooltipFieldsOptions (Some p)) \<and> label_group ?g = type f"
    using f by (simp add: tooltip_group_member)
  moreover have "g = ?g" if "g \<in> set (tooltipFieldsOptions (Some p)) \<and> label_group g = type f" for g
    using that by (simp add: tooltip_group_member)
  ultimately show "\<exists>!g. g \<in> set (tooltipFieldsOptions (Some p)) \<and> label_group g = type f"
    by blast
next
  let ?ks = "map fst (Object_entries (groupBy (fields_pattern p) type))"
  have ks: "distinct ?ks"
    using groupBy_invariant [of "fields_pattern p" type] by (simp add: Object_entries_distinct)
  have cover: "type ` set (fields_pattern p) \<subseteq> set ?ks"
    by (simp add: Object_entries_set groupBy_keys)
  have "(\<Sum>g\<leftarrow>tooltipFieldsOptions (Some p). length (options_group g))
          = (\<Sum>e\<leftarrow>Object_entries (groupBy (fields_pattern p) type). length (snd e))"
    by (simp add: tooltipFieldsOptions_Some comp_def)
  also have "\<dots> = (\<Sum>e\<leftarrow>Object_entries (groupBy (fields_pattern p) type).
                      length (filter (\<lambda>f. type f = fst e) (fields_pattern p)))"
    by (rule arg_cong [where f = sum_list], rule map_cong)
       (auto simp: Object_entries_set groupBy_member)
  also have "\<dots> = (\<Sum>k\<leftarrow>?ks. length (filter (\<lambda>f. type f = k) (fields_pattern p)))"
    by (simp add: comp_def)
  also have "\<dots> = length (fields_pattern p)"
    using ks cover by (rule filter_lengths_sum)
  finally show "(\<Sum>g\<leftarrow>tooltipFieldsOptions (Some p). length (options_group g)) = length (fields_pattern p)" .
qed

theorem tooltip_options_witness:
  "tooltipFieldsOptions (Some example_pattern)
     = [\<lparr>label_group = ''string'', options_group = [\<lparr>label = ''host''\<rparr>, \<lparr>label = ''agent''\<rparr>]\<rparr>,
        \<lparr>label_group = ''geo_point'', options_group = [\<lparr>label = ''location''\<rparr>]\<rparr>]
   \<and> \<lparr>label_group = ''string'', options_group = [\<lparr>label = ''host''\<rparr>, \<lparr>label = ''agent''\<rparr>]\<rparr>
        \<in> set (tooltipFieldsOptions (Some example_pattern))
   \<and> [\<lparr>label = ''host''\<rparr>, \<lparr>label = ''agent''\<rparr>]
        = map (\<lambda>f. \<lparr>label = (if displayName f \<noteq> [] then displayName f else name f)\<rparr>)
            (filter (\<lambda>f. type f = ''string'') (fields_pattern example_pattern))
   \<and> (\<Sum>g\<leftarrow>tooltipFieldsOptions (Some example_pattern). length (options_group g))
        = length (fields_pattern example_pattern)"
proof -
  have e: "tooltipFieldsOptions (Some example_pattern)
     = [\<lparr>label_group = ''string'', options_group = [\<lparr>label = ''host''\<rparr>, \<lparr>label = ''agent''\<rparr>]\<rparr>,
        \<lparr>label_group = ''geo_point'', options_group = [\<lparr>label = ''location''\<rparr>]\<rparr>]"
    by (simp add: tooltipFieldsOptions_def groupBy_def Object_entries_def isArrayIndex_def
          isDigit_def fieldLabel_def example_pattern_def)
  have m: "\<lparr>label_group = ''string'', options_group = [\<lparr>label = ''host''\<rparr>, \<lparr>label = ''agent''\<rparr>]\<rparr>
        \<in> set (tooltipFieldsOptions (Some example_pattern))"
    by (simp add: e)
  from tooltip_options_partition_by_type [of example_pattern]
  have all: "\<forall>g \<in> set (tooltipFieldsOptions (Some example_pattern)).
         options_group g
           = map (\<lambda>f. \<lparr>label = (if displayName f \<noteq> [] then displayName f else name f)\<rparr>)
               (filter (\<lambda>f. type f = label_group g) (fields_pattern example_pattern))"
    and total: "(\<Sum>g\<leftarrow>tooltipFieldsOptions (Some example_pattern). length (options_group g))
        = length (fields_pattern example_pattern)"
    by blast+
  from all m have "options_group \<lparr>label_group = ''string'', options_group = [\<lparr>label = ''host''\<rparr>, \<lparr>label = ''agent''\<rparr>]\<rparr>
           = map (\<lambda>f. \<lparr>label = (if displayName f \<noteq> [] then displayName f else name f)\<rparr>)
               (filter (\<lambda>f. type f = label_group \<lparr>label_group = ''string'', options_group = [\<lparr>label = ''host''\<rparr>, \<lparr>label = ''agent''\<rparr>]\<rparr>) (fields_pattern example_pattern))"
    by (rule bspec)
  then have o: "[\<lparr>label = ''host''\<rparr>, \<lparr>label = ''agent''\<rparr>]
        = map (\<lambda>f. \<lparr>label = (if displayName f \<noteq> [] then displayName f else name f)\<rparr>)
            (filter (\<lambda>f. type f = ''string'') (fields_pattern example_pattern))"
    by simp
  show ?thesis
    using e m o total by simp
qed

end
